theory Spec2Isabelle
  imports Main
begin

section \<open>JavaScript values\<close>

text \<open>
  The endpoint functions of iexjs are untyped: every argument may be any JavaScript
  value, and the code branches on truthiness (\<^verbatim>\<open>if (symbols)\<close>), interpolates
  values into template literals and reads properties of decoded JSON. The values are
  modelled by one datatype. Numbers are the integers (whose string form is the decimal
  numeral, as long as the magnitude stays below 10^21) and \<open>JNaN\<close>; fractions and
  infinities play no part in this library and are left out. An object is the list of its
  own properties, each key once.
\<close>

datatype jsval =
    JUndefined
  | JNull
  | JBool bool
  | JNum int
  | JNaN
  | JStr string
  | JArr "jsval list"
  | JObj "(string \<times> jsval) list"

text \<open>
  What a call can end in besides a value: an exception thrown by a validation helper, a
  rejection of the pending result of the request core, or a \<open>TypeError\<close> of the
  language itself (a property read on \<^verbatim>\<open>undefined\<close>, a call of a method that
  the value does not have). \<open>Unspecified\<close> marks the inputs of an absent helper on which
  its description is silent.
\<close>

datatype error =
    TypeArgumentError
  | InvalidDateError
  | RequestError int string
  | DecodeError
  | TypeError
  | Unspecified

type_synonym outcome = "error + jsval"

text \<open>Truthiness, as tested by \<^verbatim>\<open>if (v)\<close>: every array and object is truthy.\<close>

fun truthy :: "jsval \<Rightarrow> bool" where
  "truthy JUndefined = False"
| "truthy JNull = False"
| "truthy (JBool b) = b"
| "truthy (JNum n) = (n \<noteq> 0)"
| "truthy JNaN = False"
| "truthy (JStr s) = (s \<noteq> [])"
| "truthy (JArr xs) = True"
| "truthy (JObj kvs) = True"

fun isStr :: "jsval \<Rightarrow> bool" where
  "isStr (JStr s) = True"
| "isStr v = False"

text \<open>A default parameter \<^verbatim>\<open>(token = "")\<close> replaces \<^verbatim>\<open>undefined\<close> only.\<close>

definition dflt :: "jsval \<Rightarrow> jsval \<Rightarrow> jsval" where
  "dflt v d = (if v = JUndefined then d else v)"

fun digitsOf :: "nat \<Rightarrow> string" where
  "digitsOf n =
     (if n < 10 then [char_of (48 + n)]
      else digitsOf (n div 10) @ [char_of (48 + n mod 10)])"

definition numStr :: "int \<Rightarrow> string" where
  "numStr i = (if i < 0 then CHR ''-'' # digitsOf (nat (- i)) else digitsOf (nat i))"

text \<open>\<^verbatim>\<open>Array.prototype.join\<close> on the strings of the elements.\<close>

fun joinWith :: "string \<Rightarrow> string list \<Rightarrow> string" where
  "joinWith sep [] = []"
| "joinWith sep [x] = x"
| "joinWith sep (x # y # ys) = x @ sep @ joinWith sep (y # ys)"

text \<open>
  The string a template literal \<^verbatim>\<open>`${v}`\<close> inserts. An array is the comma-join
  of its elements, where \<^verbatim>\<open>undefined\<close> and \<^verbatim>\<open>null\<close> elements give
  the empty string; a plain object is \<^verbatim>\<open>[object Object]\<close>.
\<close>

fun toStr :: "jsval \<Rightarrow> string" where
  "toStr JUndefined = ''undefined''"
| "toStr JNull = ''null''"
| "toStr (JBool b) = (if b then ''true'' else ''false'')"
| "toStr (JNum n) = numStr n"
| "toStr JNaN = ''NaN''"
| "toStr (JStr s) = s"
| "toStr (JArr xs) =
     joinWith '','' (map (\<lambda>v. if v = JUndefined \<or> v = JNull then [] else toStr v) xs)"
| "toStr (JObj kvs) = ''[object Object]''"

text \<open>\<^verbatim>\<open>v.join(sep)\<close>: only an array has the method.\<close>

fun join :: "jsval \<Rightarrow> string \<Rightarrow> error + string" where
  "join (JArr xs) sep =
     Inr (joinWith sep (map (\<lambda>v. if v = JUndefined \<or> v = JNull then [] else toStr v) xs))"
| "join v sep = Inl TypeError"

text \<open>
  A property read \<^verbatim>\<open>v.k\<close> for a key that is not a built-in member (the keys read
  by this library are \<^verbatim>\<open>symbol\<close>, \<^verbatim>\<open>code\<close>, \<^verbatim>\<open>fromCurrency\<close>,
  \<^verbatim>\<open>toCurrency\<close>, \<^verbatim>\<open>currencies\<close> and \<^verbatim>\<open>pairs\<close>): a
  \<open>TypeError\<close> on \<^verbatim>\<open>undefined\<close> and \<^verbatim>\<open>null\<close>, the property of an
  object if it has one, \<^verbatim>\<open>undefined\<close> otherwise.
\<close>

fun propOf :: "jsval \<Rightarrow> string \<Rightarrow> jsval" where
  "propOf (JObj kvs) k = (case map_of kvs k of None \<Rightarrow> JUndefined | Some v \<Rightarrow> v)"
| "propOf v k = JUndefined"

definition getProp :: "jsval \<Rightarrow> string \<Rightarrow> outcome" where
  "getProp v k = (if v = JUndefined \<or> v = JNull then Inl TypeError else Inr (propOf v k))"

text \<open>The callback runs on the elements in order; the first exception ends the loop.\<close>

fun mapE :: "('a \<Rightarrow> error + 'b) \<Rightarrow> 'a list \<Rightarrow> error + 'b list" where
  "mapE f [] = Inr []"
| "mapE f (x # xs) =
     (case f x of
        Inl e \<Rightarrow> Inl e
      | Inr y \<Rightarrow> (case mapE f xs of Inl e \<Rightarrow> Inl e | Inr ys \<Rightarrow> Inr (y # ys)))"

text \<open>
  \<^verbatim>\<open>v.map(f)\<close>, and \<^verbatim>\<open>v.forEach(f)\<close> where \<open>f\<close> pushes one value per
  element onto an array that starts empty: only an array has these methods.
\<close>

fun mapArr :: "(jsval \<Rightarrow> outcome) \<Rightarrow> jsval \<Rightarrow> outcome" where
  "mapArr f (JArr xs) = (case mapE f xs of Inl e \<Rightarrow> Inl e | Inr ys \<Rightarrow> Inr (JArr ys))"
| "mapArr f v = Inl TypeError"

text \<open>
  The operator \<^verbatim>\<open>+\<close>: arrays and objects are first turned into their strings; if
  either side is then a string the strings are concatenated, otherwise the numbers are
  added (\<^verbatim>\<open>undefined\<close> is \<open>NaN\<close>, \<^verbatim>\<open>null\<close> is 0, true is 1).
\<close>

fun toPrimitive :: "jsval \<Rightarrow> jsval" where
  "toPrimitive (JArr xs) = JStr (toStr (JArr xs))"
| "toPrimitive (JObj kvs) = JStr (toStr (JObj kvs))"
| "toPrimitive v = v"

fun toNumber :: "jsval \<Rightarrow> int option" where
  "toNumber JNull = Some 0"
| "toNumber (JBool b) = Some (if b then 1 else 0)"
| "toNumber (JNum n) = Some n"
| "toNumber v = None"

definition jsAdd :: "jsval \<Rightarrow> jsval \<Rightarrow> jsval" where
  "jsAdd a b =
     (let pa = toPrimitive a; pb = toPrimitive b in
      if isStr pa \<or> isStr pb then JStr (toStr pa @ toStr pb)
      else (case (toNumber pa, toNumber pb) of
              (Some x, Some y) \<Rightarrow> JNum (x + y)
            | _ \<Rightarrow> JNaN))"

definition bindE :: "error + 'a \<Rightarrow> ('a \<Rightarrow> error + 'b) \<Rightarrow> error + 'b" where
  "bindE r k = (case r of Inl e \<Rightarrow> Inl e | Inr x \<Rightarrow> k x)"

section \<open>The request core and the validation helpers\<close>

text \<open>
  The state the endpoints act on is the network: the requests handed to the request core
  so far, each as the argument list of the call of \<^verbatim>\<open>_getJson\<close>, oldest first.
\<close>

record net =
  issued :: "jsval list list"

type_synonym core = "jsval list \<Rightarrow> outcome"

text \<open>A call in progress: it takes the network and returns its outcome and the network.\<close>

type_synonym call = "net \<Rightarrow> outcome \<times> net"

text \<open>
  Modelled from the spec: \<^verbatim>\<open>_getJson\<close> is imported from \<^verbatim>\<open>../common\<close>,
  which is not among the sources. It issues a single HTTP GET and returns a pending value
  that resolves to the decoded JSON or fails with \<open>RequestError\<close> or \<open>DecodeError\<close>.
  The model records the argument list of the call and settles with \<open>gj args\<close>, where the
  parameter \<open>gj\<close> stands for the absent function together with the transport and the
  remote service. How \<^verbatim>\<open>_getJson\<close> reads its arguments is not modelled.
\<close>

definition getJson :: "core \<Rightarrow> jsval list \<Rightarrow> call" where
  "getJson gj args st = (gj args, st\<lparr>issued := issued st @ [args]\<rparr>)"

text \<open>A request core that settles every request with the same outcome, for concrete runs.\<close>

definition cannedCore :: "outcome \<Rightarrow> core" where
  "cannedCore r args = r"

text \<open>
  Modelled from the spec: \<^verbatim>\<open>_raiseIfNotStr(value)\<close> (in \<^verbatim>\<open>../common\<close>)
  fails with \<open>TypeArgumentError\<close> if value is provided but is not a single string. A value
  counts as provided unless it is \<^verbatim>\<open>undefined\<close> (the argument was omitted) or
  \<^verbatim>\<open>null\<close>.
\<close>

definition raiseIfNotStr :: "jsval \<Rightarrow> error + unit" where
  "raiseIfNotStr v =
     (if v \<noteq> JUndefined \<and> v \<noteq> JNull \<and> \<not> isStr v then Inl TypeArgumentError else Inr ())"

text \<open>
  Modelled from the spec: \<^verbatim>\<open>_strToList(value)\<close> (in \<^verbatim>\<open>../common\<close>)
  accepts either a single string or an ordered sequence of strings and normalizes to an
  ordered sequence of strings: a string becomes the one-element sequence, a sequence of
  strings is returned unchanged. Nothing is said about other values.
\<close>

definition strToList :: "jsval \<Rightarrow> outcome" where
  "strToList v =
     (case v of
        JStr s \<Rightarrow> Inr (JArr [JStr s])
      | JArr xs \<Rightarrow> if list_all isStr xs then Inr (JArr xs) else Inl Unspecified
      | _ \<Rightarrow> Inl Unspecified)"

text \<open>An exception thrown before the request leaves the network as it was.\<close>

definition orThrow :: "error + 'a \<Rightarrow> ('a \<Rightarrow> call) \<Rightarrow> call" where
  "orThrow r k st = (case r of Inl e \<Rightarrow> (Inl e, st) | Inr x \<Rightarrow> k x st)"

text \<open>The object literal \<^verbatim>\<open>{ url: u }\<close>.\<close>

definition urlObj :: "string \<Rightarrow> jsval" where
  "urlObj u = JObj [(''url'', JStr u)]"

text \<open>The object literal \<^verbatim>\<open>{ url: u, token, version, filter }\<close>.\<close>

definition reqObj :: "string \<Rightarrow> jsval \<Rightarrow> jsval \<Rightarrow> jsval \<Rightarrow> jsval" where
  "reqObj u token version fltr =
     JObj [(''url'', JStr u), (''token'', token), (''version'', version), (''filter'', fltr)]"

section \<open>The client\<close>

text \<open>
  A \<open>Client\<close> holds the credentials that its methods read as \<^verbatim>\<open>this._token\<close>
  and \<^verbatim>\<open>this._version\<close>.
\<close>

record Client =
  client_token :: jsval
  client_version :: jsval

section \<open>Market data endpoints (marketdata/http.js)\<close>

text \<open>
  Every endpoint takes the request core \<open>gj\<close> first, then the arguments of the source in
  their order; the parameter \<^verbatim>\<open>filter\<close> is written \<open>fltr\<close>, and the parameter
  \<^verbatim>\<open>symbols\<close> of \<open>tops\<close> and \<open>last\<close> is written \<open>syms\<close>. A method
  \<^verbatim>\<open>Client.prototype.f\<close> is \<open>Client_f\<close>, with the client as \<open>this\<close>.
\<close>

definition tops :: "core \<Rightarrow> jsval \<Rightarrow> jsval \<Rightarrow> jsval \<Rightarrow> jsval \<Rightarrow> call" where
  "tops gj syms token version fltr =
     (if truthy syms then
        orThrow (strToList syms) (\<lambda>l.
        orThrow (join l '','') (\<lambda>j.
          getJson gj [urlObj (''tops?symbols='' @ j @ ''%2b''), token, version]))
      else getJson gj [urlObj ''tops'', token, version, fltr])"

definition Client_tops :: "core \<Rightarrow> Client \<Rightarrow> jsval \<Rightarrow> jsval \<Rightarrow> call" where
  "Client_tops gj this syms fltr = tops gj syms (client_token this) (client_version this) fltr"

text \<open>\<^verbatim>\<open>last\<close> of the source; the name is taken by the list function.\<close>

definition last_endpoint :: "core \<Rightarrow> jsval \<Rightarrow> jsval \<Rightarrow> jsval \<Rightarrow> jsval \<Rightarrow> call" where
  "last_endpoint gj syms token version fltr =
     (if truthy syms then
        orThrow (strToList syms) (\<lambda>l.
        orThrow (join l '','') (\<lambda>j.
          getJson gj [urlObj (''last?symbols='' @ j @ ''%2b''), token, version]))
      else getJson gj [urlObj ''last'', token, version, fltr])"

definition Client_last :: "core \<Rightarrow> Client \<Rightarrow> jsval \<Rightarrow> jsval \<Rightarrow> call" where
  "Client_last gj this syms fltr =
     last_endpoint gj syms (client_token this) (client_version this) fltr"

definition deep :: "core \<Rightarrow> jsval \<Rightarrow> jsval \<Rightarrow> jsval \<Rightarrow> jsval \<Rightarrow> call" where
  "deep gj symbol token version fltr =
     orThrow (raiseIfNotStr symbol) (\<lambda>_.
       if truthy symbol then
         getJson gj [urlObj (''deep?symbols='' @ toStr symbol), token, version]
       else getJson gj [urlObj ''deep'', token, version, fltr])"

definition Client_deep :: "core \<Rightarrow> Client \<Rightarrow> jsval \<Rightarrow> jsval \<Rightarrow> call" where
  "Client_deep gj this symbol fltr =
     deep gj symbol (client_token this) (client_version this) fltr"

definition auction :: "core \<Rightarrow> jsval \<Rightarrow> jsval \<Rightarrow> jsval \<Rightarrow> jsval \<Rightarrow> call" where
  "auction gj symbol token version fltr =
     orThrow (raiseIfNotStr symbol) (\<lambda>_.
       if truthy symbol then
         getJson gj [urlObj (''deep/auction?symbols='' @ toStr symbol), token, version, fltr]
       else getJson gj [urlObj ''deep/auction'', token, version, fltr])"

definition Client_auction :: "core \<Rightarrow> Client \<Rightarrow> jsval \<Rightarrow> jsval \<Rightarrow> call" where
  "Client_auction gj this symbol fltr =
     auction gj symbol (client_token this) (client_version this) fltr"

definition book :: "core \<Rightarrow> jsval \<Rightarrow> jsval \<Rightarrow> jsval \<Rightarrow> jsval \<Rightarrow> call" where
  "book gj symbol token version fltr =
     orThrow (raiseIfNotStr symbol) (\<lambda>_.
       if truthy symbol then
         getJson gj [urlObj (''deep/book?symbols='' @ toStr symbol), token, version, fltr]
       else getJson gj [urlObj ''deep/book'', token, version, fltr])"

definition Client_book :: "core \<Rightarrow> Client \<Rightarrow> jsval \<Rightarrow> jsval \<Rightarrow> call" where
  "Client_book gj this symbol fltr =
     book gj symbol (client_token this) (client_version this) fltr"

definition opHaltStatus :: "core \<Rightarrow> jsval \<Rightarrow> jsval \<Rightarrow> jsval \<Rightarrow> jsval \<Rightarrow> call" where
  "opHaltStatus gj symbol token version fltr =
     orThrow (raiseIfNotStr symbol) (\<lambda>_.
       if truthy symbol then
         getJson gj [urlObj (''deep/op-halt-status?symbols='' @ toStr symbol), token, version, fltr]
       else getJson gj [urlObj ''deep/op-halt-status'', token, version, fltr])"

definition Client_opHaltStatus :: "core \<Rightarrow> Client \<Rightarrow> jsval \<Rightarrow> jsval \<Rightarrow> call" where
  "Client_opHaltStatus gj this symbol fltr =
     opHaltStatus gj symbol (client_token this) (client_version this) fltr"

definition officialPrice :: "core \<Rightarrow> jsval \<Rightarrow> jsval \<Rightarrow> jsval \<Rightarrow> jsval \<Rightarrow> call" where
  "officialPrice gj symbol token version fltr =
     orThrow (raiseIfNotStr symbol) (\<lambda>_.
       if truthy symbol then
         getJson gj [urlObj (''deep/official-price?symbols='' @ toStr symbol), token, version, fltr]
       else getJson gj [urlObj ''deep/official-price'', token, version, fltr])"

definition Client_officialPrice :: "core \<Rightarrow> Client \<Rightarrow> jsval \<Rightarrow> jsval \<Rightarrow> call" where
  "Client_officialPrice gj this symbol fltr =
     officialPrice gj symbol (client_token this) (client_version this) fltr"

definition securityEvent :: "core \<Rightarrow> jsval \<Rightarrow> jsval \<Rightarrow> jsval \<Rightarrow> jsval \<Rightarrow> call" where
  "securityEvent gj symbol token version fltr =
     orThrow (raiseIfNotStr symbol) (\<lambda>_.
       if truthy symbol then
         getJson gj [urlObj (''deep/security-event?symbols='' @ toStr symbol), token, version, fltr]
       else getJson gj [urlObj ''deep/security-event'', token, version, fltr])"

definition Client_securityEvent :: "core \<Rightarrow> Client \<Rightarrow> jsval \<Rightarrow> jsval \<Rightarrow> call" where
  "Client_securityEvent gj this symbol fltr =
     securityEvent gj symbol (client_token this) (client_version this) fltr"

definition ssrStatus :: "core \<Rightarrow> jsval \<Rightarrow> jsval \<Rightarrow> jsval \<Rightarrow> jsval \<Rightarrow> call" where
  "ssrStatus gj symbol token version fltr =
     orThrow (raiseIfNotStr symbol) (\<lambda>_.
       if truthy symbol then
         getJson gj [urlObj (''deep/ssr-status?symbols='' @ toStr symbol), token, version, fltr]
       else getJson gj [urlObj ''deep/ssr-status'', token, version, fltr])"

definition Client_ssrStatus :: "core \<Rightarrow> Client \<Rightarrow> jsval \<Rightarrow> jsval \<Rightarrow> call" where
  "Client_ssrStatus gj this symbol fltr =
     ssrStatus gj symbol (client_token this) (client_version this) fltr"

definition systemEvent :: "core \<Rightarrow> jsval \<Rightarrow> jsval \<Rightarrow> jsval \<Rightarrow> jsval \<Rightarrow> call" where
  "systemEvent gj symbol token version fltr =
     orThrow (raiseIfNotStr symbol) (\<lambda>_.
       if truthy symbol then
         getJson gj [urlObj (''deep/system-event?symbols='' @ toStr symbol), token, version, fltr]
       else getJson gj [urlObj ''deep/system-event'', token, version, fltr])"

definition Client_systemEvent :: "core \<Rightarrow> Client \<Rightarrow> jsval \<Rightarrow> jsval \<Rightarrow> call" where
  "Client_systemEvent gj this symbol fltr =
     systemEvent gj symbol (client_token this) (client_version this) fltr"

definition trades :: "core \<Rightarrow> jsval \<Rightarrow> jsval \<Rightarrow> jsval \<Rightarrow> jsval \<Rightarrow> call" where
  "trades gj symbol token version fltr =
     orThrow (raiseIfNotStr symbol) (\<lambda>_.
       if truthy symbol then
         getJson gj [urlObj (''deep/trades?symbols='' @ toStr symbol), token, version, fltr]
       else getJson gj [urlObj ''deep/trades'', token, version, fltr])"

definition Client_trades :: "core \<Rightarrow> Client \<Rightarrow> jsval \<Rightarrow> jsval \<Rightarrow> call" where
  "Client_trades gj this symbol fltr =
     trades gj symbol (client_token this) (client_version this) fltr"

definition tradeBreak :: "core \<Rightarrow> jsval \<Rightarrow> jsval \<Rightarrow> jsval \<Rightarrow> jsval \<Rightarrow> call" where
  "tradeBreak gj symbol token version fltr =
     orThrow (raiseIfNotStr symbol) (\<lambda>_.
       if truthy symbol then
         getJson gj [urlObj (''deep/trade-breaks?symbols='' @ toStr symbol), token, version, fltr]
       else getJson gj [urlObj ''deep/trade-breaks'', token, version, fltr])"

definition Client_tradeBreak :: "core \<Rightarrow> Client \<Rightarrow> jsval \<Rightarrow> jsval \<Rightarrow> call" where
  "Client_tradeBreak gj this symbol fltr =
     tradeBreak gj symbol (client_token this) (client_version this) fltr"

definition tradingStatus :: "core \<Rightarrow> jsval \<Rightarrow> jsval \<Rightarrow> jsval \<Rightarrow> jsval \<Rightarrow> call" where
  "tradingStatus gj symbol token version fltr =
     orThrow (raiseIfNotStr symbol) (\<lambda>_.
       if truthy symbol then
         getJson gj [urlObj (''deep/trading-status?symbols='' @ toStr symbol), token, version, fltr]
       else getJson gj [urlObj ''deep/trading-status'', token, version, fltr])"

definition Client_tradingStatus :: "core \<Rightarrow> Client \<Rightarrow> jsval \<Rightarrow> jsval \<Rightarrow> call" where
  "Client_tradingStatus gj this symbol fltr =
     tradingStatus gj symbol (client_token this) (client_version this) fltr"

text \<open>
  \<^verbatim>\<open>_strOrDate\<close> (in \<^verbatim>\<open>../common\<close>, absent) normalizes a date to
  \<^verbatim>\<open>YYYYMMDD\<close> or fails with \<open>InvalidDateError\<close>; \<open>hist\<close> takes it as the
  parameter \<open>strOrDate\<close>.
\<close>

definition hist :: "(jsval \<Rightarrow> outcome) \<Rightarrow> core \<Rightarrow> jsval \<Rightarrow> jsval \<Rightarrow> jsval \<Rightarrow> jsval \<Rightarrow> call" where
  "hist strOrDate gj date token version fltr =
     (if truthy date then
        orThrow (strOrDate date) (\<lambda>d.
          getJson gj [urlObj (''hist?date='' @ toStr d), token, version, fltr])
      else getJson gj [urlObj ''hist'', token, version, fltr])"

definition Client_hist :: "(jsval \<Rightarrow> outcome) \<Rightarrow> core \<Rightarrow> Client \<Rightarrow> jsval \<Rightarrow> jsval \<Rightarrow> call" where
  "Client_hist strOrDate gj this date fltr =
     hist strOrDate gj date (client_token this) (client_version this) fltr"

section \<open>Reference data: symbols\<close>

text \<open>
  The functions of the symbols module take \<^verbatim>\<open>token = ""\<close>,
  \<^verbatim>\<open>version = ""\<close> and \<^verbatim>\<open>filter = ""\<close> as default parameters and hand
  the request core one object.
\<close>

definition symbols :: "core \<Rightarrow> jsval \<Rightarrow> jsval \<Rightarrow> jsval \<Rightarrow> call" where
  "symbols gj token version fltr =
     getJson gj [reqObj ''ref-data/symbols'' (dflt token (JStr [])) (dflt version (JStr []))
                   (dflt fltr (JStr []))]"

definition Client_symbols :: "core \<Rightarrow> Client \<Rightarrow> jsval \<Rightarrow> call" where
  "Client_symbols gj this fltr = symbols gj (client_token this) (client_version this) fltr"

definition iexSymbols :: "core \<Rightarrow> jsval \<Rightarrow> jsval \<Rightarrow> jsval \<Rightarrow> call" where
  "iexSymbols gj token version fltr =
     getJson gj [reqObj ''ref-data/iex/symbols'' (dflt token (JStr [])) (dflt version (JStr []))
                   (dflt fltr (JStr []))]"

definition Client_iexSymbols :: "core \<Rightarrow> Client \<Rightarrow> jsval \<Rightarrow> call" where
  "Client_iexSymbols gj this fltr = iexSymbols gj (client_token this) (client_version this) fltr"

definition mutualFundSymbols :: "core \<Rightarrow> jsval \<Rightarrow> jsval \<Rightarrow> jsval \<Rightarrow> call" where
  "mutualFundSymbols gj token version fltr =
     getJson gj [reqObj ''ref-data/mutual-funds/symbols'' (dflt token (JStr [])) (dflt version (JStr []))
                   (dflt fltr (JStr []))]"

definition Client_mutualFundSymbols :: "core \<Rightarrow> Client \<Rightarrow> jsval \<Rightarrow> call" where
  "Client_mutualFundSymbols gj this fltr = mutualFundSymbols gj (client_token this) (client_version this) fltr"

definition otcSymbols :: "core \<Rightarrow> jsval \<Rightarrow> jsval \<Rightarrow> jsval \<Rightarrow> call" where
  "otcSymbols gj token version fltr =
     getJson gj [reqObj ''ref-data/otc/symbols'' (dflt token (JStr [])) (dflt version (JStr []))
                   (dflt fltr (JStr []))]"

definition Client_otcSymbols :: "core \<Rightarrow> Client \<Rightarrow> jsval \<Rightarrow> call" where
  "Client_otcSymbols gj this fltr = otcSymbols gj (client_token this) (client_version this) fltr"

definition fxSymbols :: "core \<Rightarrow> jsval \<Rightarrow> jsval \<Rightarrow> jsval \<Rightarrow> call" where
  "fxSymbols gj token version fltr =
     getJson gj [reqObj ''ref-data/fx/symbols'' (dflt token (JStr [])) (dflt version (JStr []))
                   (dflt fltr (JStr []))]"

definition Client_fxSymbols :: "core \<Rightarrow> Client \<Rightarrow> jsval \<Rightarrow> call" where
  "Client_fxSymbols gj this fltr = fxSymbols gj (client_token this) (client_version this) fltr"

definition optionsSymbols :: "core \<Rightarrow> jsval \<Rightarrow> jsval \<Rightarrow> jsval \<Rightarrow> call" where
  "optionsSymbols gj token version fltr =
     getJson gj [reqObj ''ref-data/options/symbols'' (dflt token (JStr [])) (dflt version (JStr []))
                   (dflt fltr (JStr []))]"

definition Client_optionsSymbols :: "core \<Rightarrow> Client \<Rightarrow> jsval \<Rightarrow> call" where
  "Client_optionsSymbols gj this fltr = optionsSymbols gj (client_token this) (client_version this) fltr"

definition cryptoSymbols :: "core \<Rightarrow> jsval \<Rightarrow> jsval \<Rightarrow> jsval \<Rightarrow> call" where
  "cryptoSymbols gj token version fltr =
     getJson gj [reqObj ''ref-data/crypto/symbols'' (dflt token (JStr [])) (dflt version (JStr []))
                   (dflt fltr (JStr []))]"

definition Client_cryptoSymbols :: "core \<Rightarrow> Client \<Rightarrow> jsval \<Rightarrow> call" where
  "Client_cryptoSymbols gj this fltr = cryptoSymbols gj (client_token this) (client_version this) fltr"

definition internationalSymbols ::
  "core \<Rightarrow> jsval \<Rightarrow> jsval \<Rightarrow> jsval \<Rightarrow> jsval \<Rightarrow> jsval \<Rightarrow> call" where
  "internationalSymbols gj region exchange token version fltr =
     (if truthy region then
        getJson gj [reqObj (''ref-data/region/'' @ toStr region @ ''/symbols'')
                      (dflt token (JStr [])) (dflt version (JStr [])) (dflt fltr (JStr []))]
      else if truthy exchange then
        getJson gj [reqObj (''ref-data/exchange/'' @ toStr exchange @ ''/symbols'')
                      (dflt token (JStr [])) (dflt version (JStr [])) (dflt fltr (JStr []))]
      else
        getJson gj [reqObj ''ref-data/region/us/symbols''
                      (dflt token (JStr [])) (dflt version (JStr [])) (dflt fltr (JStr []))])"

definition Client_internationalSymbols ::
  "core \<Rightarrow> Client \<Rightarrow> jsval \<Rightarrow> jsval \<Rightarrow> jsval \<Rightarrow> call" where
  "Client_internationalSymbols gj this region exchange fltr =
     internationalSymbols gj region exchange (client_token this) (client_version this) fltr"

text \<open>
  \<^verbatim>\<open>convertToList\<close> awaits the pending result (a rejection is passed on) and maps
  every record to its \<^verbatim>\<open>symbol\<close> property.
\<close>

definition convertToList :: "outcome \<Rightarrow> outcome" where
  "convertToList res =
     bindE res (mapArr (\<lambda>record. getProp record ''symbol''))"

text \<open>The call that produces the pending result is made first, then it is converted.\<close>

definition converted :: "call \<Rightarrow> call" where
  "converted call st = (case call st of (res, st') \<Rightarrow> (convertToList res, st'))"

definition symbolsList :: "core \<Rightarrow> jsval \<Rightarrow> jsval \<Rightarrow> call" where
  "symbolsList gj token version = converted (symbols gj token version (JStr ''symbol''))"

definition Client_symbolsList :: "core \<Rightarrow> Client \<Rightarrow> call" where
  "Client_symbolsList gj this =
     converted (symbols gj (client_token this) (client_version this) (JStr ''symbol''))"

definition iexSymbolsList :: "core \<Rightarrow> jsval \<Rightarrow> jsval \<Rightarrow> call" where
  "iexSymbolsList gj token version = converted (iexSymbols gj token version (JStr ''symbol''))"

definition Client_iexSymbolsList :: "core \<Rightarrow> Client \<Rightarrow> call" where
  "Client_iexSymbolsList gj this =
     converted (iexSymbols gj (client_token this) (client_version this) (JStr ''symbol''))"

definition mutualFundSymbolsList :: "core \<Rightarrow> jsval \<Rightarrow> jsval \<Rightarrow> call" where
  "mutualFundSymbolsList gj token version = converted (mutualFundSymbols gj token version (JStr ''symbol''))"

definition Client_mutualFundSymbolsList :: "core \<Rightarrow> Client \<Rightarrow> call" where
  "Client_mutualFundSymbolsList gj this =
     converted (mutualFundSymbols gj (client_token this) (client_version this) (JStr ''symbol''))"

definition otcSymbolsList :: "core \<Rightarrow> jsval \<Rightarrow> jsval \<Rightarrow> call" where
  "otcSymbolsList gj token version = converted (otcSymbols gj token version (JStr ''symbol''))"

definition Client_otcSymbolsList :: "core \<Rightarrow> Client \<Rightarrow> call" where
  "Client_otcSymbolsList gj this =
     converted (otcSymbols gj (client_token this) (client_version this) (JStr ''symbol''))"

definition internationalSymbolsList ::
  "core \<Rightarrow> jsval \<Rightarrow> jsval \<Rightarrow> jsval \<Rightarrow> jsval \<Rightarrow> call" where
  "internationalSymbolsList gj region exchange token version =
     converted (internationalSymbols gj region exchange token version (JStr ''symbol''))"

definition Client_internationalSymbolsList ::
  "core \<Rightarrow> Client \<Rightarrow> jsval \<Rightarrow> jsval \<Rightarrow> call" where
  "Client_internationalSymbolsList gj this region exchange =
     converted (internationalSymbols gj region exchange (client_token this)
                  (client_version this) (JStr ''symbol''))"

text \<open>
  \<^verbatim>\<open>fxSymbolsList\<close> calls \<^verbatim>\<open>fxSymbols(token, version)\<close> with no filter,
  awaits it, and fills the two arrays of \<^verbatim>\<open>ret = [[], []]\<close> in two loops.
\<close>

definition fxSymbolsList :: "core \<Rightarrow> jsval \<Rightarrow> jsval \<Rightarrow> call" where
  "fxSymbolsList gj token version st =
     (case fxSymbols gj token version JUndefined st of
        (res, st') \<Rightarrow>
          (bindE res (\<lambda>fx.
           bindE (getProp fx ''currencies'') (\<lambda>currencies.
           bindE (mapArr (\<lambda>record. getProp record ''code'') currencies) (\<lambda>ret0.
           bindE (getProp fx ''pairs'') (\<lambda>pairs.
           bindE (mapArr (\<lambda>record.
                    bindE (getProp record ''fromCurrency'') (\<lambda>a.
                    bindE (getProp record ''toCurrency'') (\<lambda>b. Inr (jsAdd a b)))) pairs)
             (\<lambda>ret1. Inr (JArr [ret0, ret1])))))), st'))"

definition Client_fxSymbolsList :: "core \<Rightarrow> Client \<Rightarrow> call" where
  "Client_fxSymbolsList gj this = fxSymbolsList gj (client_token this) (client_version this)"

definition optionsSymbolsList :: "core \<Rightarrow> jsval \<Rightarrow> jsval \<Rightarrow> call" where
  "optionsSymbolsList gj token version = converted (optionsSymbols gj token version (JStr ''symbol''))"

definition Client_optionsSymbolsList :: "core \<Rightarrow> Client \<Rightarrow> call" where
  "Client_optionsSymbolsList gj this =
     converted (optionsSymbols gj (client_token this) (client_version this) (JStr ''symbol''))"

definition cryptoSymbolsList :: "core \<Rightarrow> jsval \<Rightarrow> jsval \<Rightarrow> call" where
  "cryptoSymbolsList gj token version = converted (cryptoSymbols gj token version (JStr ''symbol''))"

definition Client_cryptoSymbolsList :: "core \<Rightarrow> Client \<Rightarrow> call" where
  "Client_cryptoSymbolsList gj this =
     converted (cryptoSymbols gj (client_token this) (client_version this) (JStr ''symbol''))"

definition isinLookup :: "core \<Rightarrow> jsval \<Rightarrow> jsval \<Rightarrow> jsval \<Rightarrow> jsval \<Rightarrow> call" where
  "isinLookup gj isin token version fltr =
     getJson gj [reqObj (''ref-data/isin?isin='' @ toStr isin)
                   (dflt token (JStr [])) (dflt version (JStr [])) (dflt fltr (JStr []))]"

definition Client_isinLookup :: "core \<Rightarrow> Client \<Rightarrow> jsval \<Rightarrow> jsval \<Rightarrow> call" where
  "Client_isinLookup gj this isin fltr =
     isinLookup gj isin (client_token this) (client_version this) fltr"

section \<open>Properties\<close>

subsection \<open>Facts about the helpers\<close>

lemma raiseIfNotStr_str: "raiseIfNotStr (JStr s) = Inr ()"
  by (simp add: raiseIfNotStr_def)

lemma raiseIfNotStr_undefined: "raiseIfNotStr JUndefined = Inr ()"
  by (simp add: raiseIfNotStr_def)

lemma raiseIfNotStr_truthy_nonstr:
  "truthy v \<Longrightarrow> \<not> isStr v \<Longrightarrow> raiseIfNotStr v = Inl TypeArgumentError"
  by (cases v) (simp_all add: raiseIfNotStr_def)

lemma orThrow_Inl: "orThrow (Inl e) k st = (Inl e, st)"
  by (simp add: orThrow_def)

lemma orThrow_Inr: "orThrow (Inr x) k st = k x st"
  by (simp add: orThrow_def)

lemma elemStrs_strs:
  "map (\<lambda>v. if v = JUndefined \<or> v = JNull then [] else toStr v) (map JStr xs) = xs"
  by (induction xs) simp_all

lemma list_all_isStr_strs: "list_all isStr (map JStr xs)"
  by (induction xs) simp_all

lemma strToList_str: "strToList (JStr s) = Inr (JArr [JStr s])"
  by (simp add: strToList_def)

lemma strToList_strs: "strToList (JArr (map JStr xs)) = Inr (JArr (map JStr xs))"
  by (simp add: strToList_def list_all_isStr_strs)

lemma join_strs: "join (JArr (map JStr xs)) sep = Inr (joinWith sep xs)"
  by (simp only: join.simps elemStrs_strs)

lemma join_one: "join (JArr [JStr s]) sep = Inr s"
  by simp

lemma tops_strs:
  "tops gj (JArr (map JStr xs)) token version fltr st =
     getJson gj [urlObj (''tops?symbols='' @ joinWith '','' xs @ ''%2b''), token, version] st"
  by (simp only: tops_def truthy.simps if_True strToList_strs join_strs orThrow_Inr)

lemma last_strs:
  "last_endpoint gj (JArr (map JStr xs)) token version fltr st =
     getJson gj [urlObj (''last?symbols='' @ joinWith '','' xs @ ''%2b''), token, version] st"
  by (simp only: last_endpoint_def truthy.simps if_True strToList_strs join_strs orThrow_Inr)

lemma tops_str:
  "s \<noteq> [] \<Longrightarrow> tops gj (JStr s) token version fltr st =
     getJson gj [urlObj (''tops?symbols='' @ s @ ''%2b''), token, version] st"
  by (simp add: tops_def strToList_str orThrow_Inr)

lemma last_str:
  "s \<noteq> [] \<Longrightarrow> last_endpoint gj (JStr s) token version fltr st =
     getJson gj [urlObj (''last?symbols='' @ s @ ''%2b''), token, version] st"
  by (simp add: last_endpoint_def strToList_str orThrow_Inr)

lemma tops_falsy:
  "\<not> truthy e \<Longrightarrow> tops gj e token version fltr st = getJson gj [urlObj ''tops'', token, version, fltr] st"
  by (simp add: tops_def)

lemma last_falsy:
  "\<not> truthy e \<Longrightarrow> last_endpoint gj e token version fltr st = getJson gj [urlObj ''last'', token, version, fltr] st"
  by (simp add: last_endpoint_def)

lemma raiseIfNotStr_empty: "e = JStr [] \<or> e = JUndefined \<Longrightarrow> raiseIfNotStr e = Inr ()"
  by (auto simp add: raiseIfNotStr_def)

lemma falsy_empty: "e = JStr [] \<or> e = JUndefined \<Longrightarrow> \<not> truthy e"
  by auto

lemmas single_symbol_defs =
  auction_def book_def opHaltStatus_def officialPrice_def securityEvent_def ssrStatus_def
  systemEvent_def trades_def tradeBreak_def tradingStatus_def

lemma bindE_Inr: "bindE (Inr x) k = k x"
  by (simp add: bindE_def)

lemma bindE_Inl: "bindE (Inl e) k = Inl e"
  by (simp add: bindE_def)

lemma mapE_getProp:
  "JUndefined \<notin> set rs \<Longrightarrow> JNull \<notin> set rs \<Longrightarrow>
     mapE (\<lambda>record. getProp record k) rs = Inr (map (\<lambda>record. propOf record k) rs)"
  by (induction rs) (auto simp add: getProp_def)

lemma convertToList_array:
  "JUndefined \<notin> set rs \<Longrightarrow> JNull \<notin> set rs \<Longrightarrow>
     convertToList (Inr (JArr rs)) = Inr (JArr (map (\<lambda>record. propOf record ''symbol'') rs))"
  by (simp add: convertToList_def bindE_def mapE_getProp)

lemma convertToList_rejected: "convertToList (Inl e) = Inl e"
  by (simp add: convertToList_def bindE_def)

lemma mapE_pair:
  "JUndefined \<notin> set ps \<Longrightarrow> JNull \<notin> set ps \<Longrightarrow>
     mapE (\<lambda>record. bindE (getProp record ''fromCurrency'') (\<lambda>a.
                     bindE (getProp record ''toCurrency'') (\<lambda>b. Inr (jsAdd a b)))) ps =
     Inr (map (\<lambda>record. jsAdd (propOf record ''fromCurrency'') (propOf record ''toCurrency'')) ps)"
  by (induction ps) (auto simp add: getProp_def bindE_def)

lemma jsAdd_strs: "jsAdd (JStr a) (JStr b) = JStr (a @ b)"
  by (simp add: jsAdd_def)

lemma propOf_array_obj: "propOf fx k = JArr xs \<Longrightarrow> fx \<noteq> JUndefined \<and> fx \<noteq> JNull"
  by (cases fx) simp_all

lemma fxSymbolsList_resolved:
  assumes "fxSymbols gj token version JUndefined st = (Inr fx, st')"
    and "propOf fx ''currencies'' = JArr cs"
    and "propOf fx ''pairs'' = JArr ps"
    and "JUndefined \<notin> set cs" and "JNull \<notin> set cs"
    and "JUndefined \<notin> set ps" and "JNull \<notin> set ps"
  shows "fxSymbolsList gj token version st =
      (Inr (JArr [JArr (map (\<lambda>record. propOf record ''code'') cs),
                  JArr (map (\<lambda>record. jsAdd (propOf record ''fromCurrency'')
                                             (propOf record ''toCurrency'')) ps)]), st')"
proof -
  have fx: "getProp fx ''currencies'' = Inr (JArr cs)" "getProp fx ''pairs'' = Inr (JArr ps)"
    using assms(2,3) propOf_array_obj [OF assms(2)] by (simp_all add: getProp_def)
  have c: "mapArr (\<lambda>record. getProp record ''code'') (JArr cs) =
             Inr (JArr (map (\<lambda>record. propOf record ''code'') cs))"
    using assms(4,5) by (simp add: mapE_getProp)
  have p: "mapArr (\<lambda>record. bindE (getProp record ''fromCurrency'') (\<lambda>a.
                     bindE (getProp record ''toCurrency'') (\<lambda>b. Inr (jsAdd a b)))) (JArr ps) =
     Inr (JArr (map (\<lambda>record. jsAdd (propOf record ''fromCurrency'')
                                     (propOf record ''toCurrency'')) ps))"
    using assms(6,7) by (simp add: mapE_pair)
  show ?thesis
    by (simp add: fxSymbolsList_def assms(1) fx c p bindE_Inr del: mapArr.simps)
qed

lemmas client_method_defs =
    Client_tops_def Client_last_def Client_deep_def Client_auction_def Client_book_def
    Client_opHaltStatus_def Client_officialPrice_def Client_securityEvent_def
    Client_ssrStatus_def Client_systemEvent_def Client_trades_def Client_tradeBreak_def
    Client_tradingStatus_def Client_hist_def Client_symbols_def Client_iexSymbols_def
    Client_mutualFundSymbols_def Client_otcSymbols_def Client_fxSymbols_def
    Client_optionsSymbols_def Client_cryptoSymbols_def Client_internationalSymbols_def
    Client_symbolsList_def symbolsList_def Client_iexSymbolsList_def iexSymbolsList_def
    Client_mutualFundSymbolsList_def mutualFundSymbolsList_def Client_otcSymbolsList_def
    otcSymbolsList_def Client_fxSymbolsList_def Client_optionsSymbolsList_def
    optionsSymbolsList_def Client_cryptoSymbolsList_def cryptoSymbolsList_def
    Client_internationalSymbolsList_def internationalSymbolsList_def Client_isinLookup_def

subsection \<open>The URL of \<open>deep\<close>\<close>

text \<open>
  Claim C6. For every non-empty symbol string \<open>s\<close>, \<open>deep\<close> hands the request core
  one request whose URL is \<^verbatim>\<open>deep?symbols=\<close> followed by \<open>s\<close>; for the empty
  string and for an omitted symbol the URL is \<^verbatim>\<open>deep\<close>, with no query parameter.
\<close>

theorem deep_url:
  "(s \<noteq> [] \<longrightarrow>
      deep gj (JStr s) token version fltr st =
        (gj [urlObj (''deep?symbols='' @ s), token, version],
         st\<lparr>issued := issued st @ [[urlObj (''deep?symbols='' @ s), token, version]]\<rparr>))
   \<and> (symbol = JStr [] \<or> symbol = JUndefined \<longrightarrow>
      deep gj symbol token version fltr st =
        (gj [urlObj ''deep'', token, version, fltr],
         st\<lparr>issued := issued st @ [[urlObj ''deep'', token, version, fltr]]\<rparr>))"
  by (auto simp add: deep_def raiseIfNotStr_str raiseIfNotStr_undefined orThrow_Inr getJson_def)

theorem deep_url_witness:
  "deep (cannedCore (Inr JNull)) (JStr ''AAPL'') (JStr ''pk'') (JStr ''stable'')
        (JStr ''bids'') \<lparr>issued = []\<rparr> =
     (Inr JNull, \<lparr>issued = [[urlObj ''deep?symbols=AAPL'', JStr ''pk'', JStr ''stable'']]\<rparr>)
   \<and> deep (cannedCore (Inr JNull)) JUndefined (JStr ''pk'') (JStr ''stable'')
        (JStr ''bids'') \<lparr>issued = []\<rparr> =
     (Inr JNull, \<lparr>issued = [[urlObj ''deep'', JStr ''pk'', JStr ''stable'', JStr ''bids'']]\<rparr>)"
  using deep_url [where s = "''AAPL''" and symbol = JUndefined
      and gj = "cannedCore (Inr JNull)" and token = "JStr ''pk''" and version = "JStr ''stable''"
      and fltr = "JStr ''bids''" and st = "\<lparr>issued = []\<rparr>"]
  by (simp add: cannedCore_def)

subsection \<open>A value that is not a string where one symbol is required\<close>

text \<open>
  Claim C7. A non-empty (truthy) argument that is not a single string, for example an
  array, makes each of the eleven single-symbol endpoints fail with \<open>TypeArgumentError\<close>,
  and the list of issued requests is the one before the call: nothing reached the
  request core.
\<close>

theorem single_symbol_not_str:
  assumes "truthy v" and "\<not> isStr v"
  shows "deep gj v token version fltr st = (Inl TypeArgumentError, st)
    \<and> auction gj v token version fltr st = (Inl TypeArgumentError, st)
    \<and> book gj v token version fltr st = (Inl TypeArgumentError, st)
    \<and> opHaltStatus gj v token version fltr st = (Inl TypeArgumentError, st)
    \<and> officialPrice gj v token version fltr st = (Inl TypeArgumentError, st)
    \<and> securityEvent gj v token version fltr st = (Inl TypeArgumentError, st)
    \<and> ssrStatus gj v token version fltr st = (Inl TypeArgumentError, st)
    \<and> systemEvent gj v token version fltr st = (Inl TypeArgumentError, st)
    \<and> trades gj v token version fltr st = (Inl TypeArgumentError, st)
    \<and> tradeBreak gj v token version fltr st = (Inl TypeArgumentError, st)
    \<and> tradingStatus gj v token version fltr st = (Inl TypeArgumentError, st)"
proof -
  have r: "raiseIfNotStr v = Inl TypeArgumentError"
    using assms by (rule raiseIfNotStr_truthy_nonstr)
  show ?thesis
    by (simp only: deep_def auction_def book_def opHaltStatus_def officialPrice_def
        securityEvent_def ssrStatus_def systemEvent_def trades_def tradeBreak_def
        tradingStatus_def r orThrow_Inl simp_thms)
qed

theorem single_symbol_not_str_witness:
  "truthy (JArr [JStr ''AAPL'', JStr ''MSFT'']) \<and> \<not> isStr (JArr [JStr ''AAPL'', JStr ''MSFT''])
   \<and> deep (cannedCore (Inr JNull)) (JArr [JStr ''AAPL'', JStr ''MSFT'']) (JStr ''pk'')
        (JStr ''stable'') JUndefined \<lparr>issued = []\<rparr> = (Inl TypeArgumentError, \<lparr>issued = []\<rparr>)
   \<and> auction (cannedCore (Inr JNull)) (JArr [JStr ''AAPL'', JStr ''MSFT'']) (JStr ''pk'')
        (JStr ''stable'') JUndefined \<lparr>issued = []\<rparr> = (Inl TypeArgumentError, \<lparr>issued = []\<rparr>)"
proof -
  have t: "truthy (JArr [JStr ''AAPL'', JStr ''MSFT''])" by simp
  have n: "\<not> isStr (JArr [JStr ''AAPL'', JStr ''MSFT''])" by simp
  show ?thesis
    using t n single_symbol_not_str [OF t n, of "cannedCore (Inr JNull)" "JStr ''pk''"
        "JStr ''stable''" JUndefined "\<lparr>issued = []\<rparr>"]
    by simp
qed

subsection \<open>The symbols parameter of \<open>tops\<close> and \<open>last\<close>\<close>

text \<open>
  Claim C8. For a non-empty string \<open>s\<close> (normalized to the list of \<open>s\<close> alone) and for a
  list of strings \<open>xs\<close> (normalized to itself), \<open>tops\<close> and \<open>last\<close> issue one request
  whose URL ends in \<^verbatim>\<open>?symbols=\<close>, the comma-join of the normalized list, and the
  suffix \<^verbatim>\<open>%2b\<close>, the query-string encoding of \<^verbatim>\<open>+\<close>.
\<close>

theorem tops_last_symbols_parameter:
  assumes "syms = JStr s \<and> s \<noteq> [] \<and> xs = [s] \<or> syms = JArr (map JStr xs)"
  shows "strToList syms = Inr (JArr (map JStr xs))
    \<and> tops gj syms token version fltr st =
        (gj [urlObj (''tops?symbols='' @ joinWith '','' xs @ ''%2b''), token, version],
         st\<lparr>issued := issued st @
            [[urlObj (''tops?symbols='' @ joinWith '','' xs @ ''%2b''), token, version]]\<rparr>)
    \<and> last_endpoint gj syms token version fltr st =
        (gj [urlObj (''last?symbols='' @ joinWith '','' xs @ ''%2b''), token, version],
         st\<lparr>issued := issued st @
            [[urlObj (''last?symbols='' @ joinWith '','' xs @ ''%2b''), token, version]]\<rparr>)"
  using assms
proof (elim disjE conjE)
  assume "syms = JStr s" "s \<noteq> []" "xs = [s]"
  then show ?thesis
    by (simp add: strToList_str tops_str last_str getJson_def)
next
  assume "syms = JArr (map JStr xs)"
  then show ?thesis
    by (simp only: strToList_strs tops_strs last_strs getJson_def simp_thms)
qed

theorem tops_last_symbols_parameter_witness:
  "tops (cannedCore (Inr JNull)) (JArr (map JStr [''AAPL'', ''MSFT''])) (JStr ''pk'')
      (JStr ''stable'') (JStr ''lastSalePrice'') \<lparr>issued = []\<rparr> =
     (Inr JNull, \<lparr>issued = [[urlObj ''tops?symbols=AAPL,MSFT%2b'', JStr ''pk'', JStr ''stable'']]\<rparr>)
   \<and> last_endpoint (cannedCore (Inr JNull)) (JStr ''AAPL'') (JStr ''pk'')
      (JStr ''stable'') (JStr ''price'') \<lparr>issued = []\<rparr> =
     (Inr JNull, \<lparr>issued = [[urlObj ''last?symbols=AAPL%2b'', JStr ''pk'', JStr ''stable'']]\<rparr>)"
  using tops_last_symbols_parameter [where syms = "JArr (map JStr [''AAPL'', ''MSFT''])"
      and xs = "[''AAPL'', ''MSFT'']" and gj = "cannedCore (Inr JNull)" and token = "JStr ''pk''"
      and version = "JStr ''stable''" and fltr = "JStr ''lastSalePrice''"
      and st = "\<lparr>issued = []\<rparr>"]
    tops_last_symbols_parameter [where syms = "JStr ''AAPL''" and s = "''AAPL''"
      and xs = "[''AAPL'']" and gj = "cannedCore (Inr JNull)" and token = "JStr ''pk''"
      and version = "JStr ''stable''" and fltr = "JStr ''price''"
      and st = "\<lparr>issued = []\<rparr>"]
  by (simp add: cannedCore_def)

subsection \<open>Batch form and single form\<close>

text \<open>
  Claim C1, as the code has it. With a non-empty symbols argument, that is a non-empty
  string \<open>s\<close> or, for \<open>tops\<close> and \<open>last\<close>, a non-empty list of strings \<open>xs\<close>, every one of
  the thirteen endpoints uses the batch URL form. Only \<open>tops\<close>, \<open>last\<close> and \<open>deep\<close> then
  leave the filter out of the call of the request core; \<open>auction\<close>, \<open>book\<close>,
  \<open>opHaltStatus\<close>, \<open>officialPrice\<close>, \<open>securityEvent\<close>, \<open>ssrStatus\<close>, \<open>systemEvent\<close>,
  \<open>trades\<close>, \<open>tradeBreak\<close> and \<open>tradingStatus\<close> pass it on as in the single form. With the
  empty string or an omitted (\<^verbatim>\<open>undefined\<close>) symbols argument \<open>e\<close> all thirteen use
  the single form and pass the filter on. The empty list is covered by neither part.
\<close>

theorem batch_and_single_forms:
  assumes "s \<noteq> []" and "xs \<noteq> []" and "e = JStr [] \<or> e = JUndefined"
  shows
   "tops gj (JStr s) t v fl st = getJson gj [urlObj (''tops?symbols='' @ s @ ''%2b''), t, v] st
  \<and> tops gj (JArr (map JStr xs)) t v fl st =
      getJson gj [urlObj (''tops?symbols='' @ joinWith '','' xs @ ''%2b''), t, v] st
  \<and> last_endpoint gj (JStr s) t v fl st =
      getJson gj [urlObj (''last?symbols='' @ s @ ''%2b''), t, v] st
  \<and> last_endpoint gj (JArr (map JStr xs)) t v fl st =
      getJson gj [urlObj (''last?symbols='' @ joinWith '','' xs @ ''%2b''), t, v] st
  \<and> deep gj (JStr s) t v fl st = getJson gj [urlObj (''deep?symbols='' @ s), t, v] st
  \<and> auction gj (JStr s) t v fl st =
      getJson gj [urlObj (''deep/auction?symbols='' @ s), t, v, fl] st
  \<and> book gj (JStr s) t v fl st = getJson gj [urlObj (''deep/book?symbols='' @ s), t, v, fl] st
  \<and> opHaltStatus gj (JStr s) t v fl st =
      getJson gj [urlObj (''deep/op-halt-status?symbols='' @ s), t, v, fl] st
  \<and> officialPrice gj (JStr s) t v fl st =
      getJson gj [urlObj (''deep/official-price?symbols='' @ s), t, v, fl] st
  \<and> securityEvent gj (JStr s) t v fl st =
      getJson gj [urlObj (''deep/security-event?symbols='' @ s), t, v, fl] st
  \<and> ssrStatus gj (JStr s) t v fl st =
      getJson gj [urlObj (''deep/ssr-status?symbols='' @ s), t, v, fl] st
  \<and> systemEvent gj (JStr s) t v fl st =
      getJson gj [urlObj (''deep/system-event?symbols='' @ s), t, v, fl] st
  \<and> trades gj (JStr s) t v fl st =
      getJson gj [urlObj (''deep/trades?symbols='' @ s), t, v, fl] st
  \<and> tradeBreak gj (JStr s) t v fl st =
      getJson gj [urlObj (''deep/trade-breaks?symbols='' @ s), t, v, fl] st
  \<and> tradingStatus gj (JStr s) t v fl st =
      getJson gj [urlObj (''deep/trading-status?symbols='' @ s), t, v, fl] st
  \<and> tops gj e t v fl st = getJson gj [urlObj ''tops'', t, v, fl] st
  \<and> last_endpoint gj e t v fl st = getJson gj [urlObj ''last'', t, v, fl] st
  \<and> deep gj e t v fl st = getJson gj [urlObj ''deep'', t, v, fl] st
  \<and> auction gj e t v fl st = getJson gj [urlObj ''deep/auction'', t, v, fl] st
  \<and> book gj e t v fl st = getJson gj [urlObj ''deep/book'', t, v, fl] st
  \<and> opHaltStatus gj e t v fl st = getJson gj [urlObj ''deep/op-halt-status'', t, v, fl] st
  \<and> officialPrice gj e t v fl st = getJson gj [urlObj ''deep/official-price'', t, v, fl] st
  \<and> securityEvent gj e t v fl st = getJson gj [urlObj ''deep/security-event'', t, v, fl] st
  \<and> ssrStatus gj e t v fl st = getJson gj [urlObj ''deep/ssr-status'', t, v, fl] st
  \<and> systemEvent gj e t v fl st = getJson gj [urlObj ''deep/system-event'', t, v, fl] st
  \<and> trades gj e t v fl st = getJson gj [urlObj ''deep/trades'', t, v, fl] st
  \<and> tradeBreak gj e t v fl st = getJson gj [urlObj ''deep/trade-breaks'', t, v, fl] st
  \<and> tradingStatus gj e t v fl st = getJson gj [urlObj ''deep/trading-status'', t, v, fl] st"
proof -
  have ne: "truthy (JStr s)" using assms(1) by simp
  have fe: "\<not> truthy e" using assms(3) by (rule falsy_empty)
  have re: "raiseIfNotStr e = Inr ()" using assms(3) by (rule raiseIfNotStr_empty)
  show ?thesis
    by (simp only: tops_str [OF assms(1)] last_str [OF assms(1)] tops_strs last_strs
        tops_falsy [OF fe] last_falsy [OF fe] deep_def single_symbol_defs
        raiseIfNotStr_str re orThrow_Inr ne fe if_True if_False toStr.simps simp_thms)
qed

theorem batch_and_single_forms_witness:
  "tops (cannedCore (Inr JNull)) (JStr ''AAPL'') (JStr ''pk'') (JStr ''stable'')
      (JStr ''bidPrice'') \<lparr>issued = []\<rparr> =
     (Inr JNull, \<lparr>issued = [[urlObj ''tops?symbols=AAPL%2b'', JStr ''pk'', JStr ''stable'']]\<rparr>)
   \<and> last_endpoint (cannedCore (Inr JNull)) (JArr [JStr ''AAPL'', JStr ''MSFT'']) (JStr ''pk'')
      (JStr ''stable'') (JStr ''bidPrice'') \<lparr>issued = []\<rparr> =
     (Inr JNull, \<lparr>issued = [[urlObj ''last?symbols=AAPL,MSFT%2b'', JStr ''pk'',
                              JStr ''stable'']]\<rparr>)
   \<and> deep (cannedCore (Inr JNull)) (JStr ''AAPL'') (JStr ''pk'') (JStr ''stable'')
      (JStr ''bidPrice'') \<lparr>issued = []\<rparr> =
     (Inr JNull, \<lparr>issued = [[urlObj ''deep?symbols=AAPL'', JStr ''pk'', JStr ''stable'']]\<rparr>)
   \<and> book (cannedCore (Inr JNull)) (JStr ''AAPL'') (JStr ''pk'') (JStr ''stable'')
      (JStr ''bidPrice'') \<lparr>issued = []\<rparr> =
     (Inr JNull, \<lparr>issued = [[urlObj ''deep/book?symbols=AAPL'', JStr ''pk'', JStr ''stable'',
                              JStr ''bidPrice'']]\<rparr>)
   \<and> tops (cannedCore (Inr JNull)) JUndefined (JStr ''pk'') (JStr ''stable'')
      (JStr ''bidPrice'') \<lparr>issued = []\<rparr> =
     (Inr JNull, \<lparr>issued = [[urlObj ''tops'', JStr ''pk'', JStr ''stable'', JStr ''bidPrice'']]\<rparr>)
   \<and> book (cannedCore (Inr JNull)) JUndefined (JStr ''pk'') (JStr ''stable'')
      (JStr ''bidPrice'') \<lparr>issued = []\<rparr> =
     (Inr JNull, \<lparr>issued = [[urlObj ''deep/book'', JStr ''pk'', JStr ''stable'',
                              JStr ''bidPrice'']]\<rparr>)"
  using batch_and_single_forms [where s = "''AAPL''" and xs = "[''AAPL'', ''MSFT'']"
      and e = JUndefined and gj = "cannedCore (Inr JNull)" and t = "JStr ''pk''" and v = "JStr ''stable''"
      and fl = "JStr ''bidPrice''" and st = "\<lparr>issued = []\<rparr>"]
  by (simp add: getJson_def cannedCore_def)

text \<open>
  The claim as it was stated fails at \<open>auction\<close>: called with the symbol
  \<^verbatim>\<open>AAPL\<close> and the filter \<^verbatim>\<open>auctionType\<close>, the batch form is used and
  the filter is the fourth argument of the call of the request core.
\<close>

theorem auction_batch_form_forwards_filter:
  "auction (cannedCore (Inr JNull)) (JStr ''AAPL'') (JStr ''pk'') (JStr ''stable'')
      (JStr ''auctionType'') \<lparr>issued = []\<rparr> =
     (Inr JNull, \<lparr>issued = [[urlObj ''deep/auction?symbols=AAPL'', JStr ''pk'', JStr ''stable'',
                              JStr ''auctionType'']]\<rparr>)
   \<and> auction (cannedCore (Inr JNull)) (JStr ''AAPL'') (JStr ''pk'') (JStr ''stable'')
      (JStr ''auctionType'') \<lparr>issued = []\<rparr> \<noteq>
     getJson (cannedCore (Inr JNull)) [urlObj ''deep/auction?symbols=AAPL'', JStr ''pk'',
                              JStr ''stable''] \<lparr>issued = []\<rparr>"
  by (simp add: auction_def raiseIfNotStr_str orThrow_Inr getJson_def cannedCore_def)

subsection \<open>Symbol lists\<close>

text \<open>
  Claim C4. \<open>symbolsList\<close> issues the request of \<open>symbols\<close> with the filter
  \<^verbatim>\<open>symbol\<close> and, when that resolves to an array of records, returns the array of
  their \<^verbatim>\<open>symbol\<close> properties: the \<open>map\<close> keeps the order and the length. For the
  response \<^verbatim>\<open>[{symbol:"AAPL"},{symbol:"MSFT"}]\<close> the result is
  \<^verbatim>\<open>["AAPL","MSFT"]\<close>. A rejection of \<open>symbols\<close> is the rejection of
  \<open>symbolsList\<close>.
\<close>

theorem symbolsList_projects_symbol:
  "(symbols gj token version (JStr ''symbol'') st = (Inr (JArr rs), st') \<and>
      JUndefined \<notin> set rs \<and> JNull \<notin> set rs \<longrightarrow>
      symbolsList gj token version st =
        (Inr (JArr (map (\<lambda>record. propOf record ''symbol'') rs)), st') \<and>
      length (map (\<lambda>record. propOf record ''symbol'') rs) = length rs)
   \<and> (symbols gj token version (JStr ''symbol'') st =
        (Inr (JArr [JObj [(''symbol'', JStr ''AAPL'')], JObj [(''symbol'', JStr ''MSFT'')]]), st') \<longrightarrow>
      symbolsList gj token version st = (Inr (JArr [JStr ''AAPL'', JStr ''MSFT'']), st'))
   \<and> (symbols gj token version (JStr ''symbol'') st = (Inl e, st') \<longrightarrow>
      symbolsList gj token version st = (Inl e, st'))"
  by (simp add: symbolsList_def converted_def convertToList_array convertToList_rejected)

theorem symbolsList_projects_symbol_witness:
  "symbolsList
     (cannedCore (Inr (JArr [JObj [(''symbol'', JStr ''AAPL'')], JObj [(''symbol'', JStr ''MSFT'')]])))
     (JStr ''pk'') JUndefined \<lparr>issued = []\<rparr> =
   (Inr (JArr [JStr ''AAPL'', JStr ''MSFT'']),
    \<lparr>issued = [[reqObj ''ref-data/symbols'' (JStr ''pk'') (JStr []) (JStr ''symbol'')]]\<rparr>)"
  using symbolsList_projects_symbol [where gj = "cannedCore (Inr (JArr [JObj [(''symbol'', JStr ''AAPL'')],
                                               JObj [(''symbol'', JStr ''MSFT'')]]))"
      and token = "JStr ''pk''" and version = JUndefined and st = "\<lparr>issued = []\<rparr>"
      and rs = "[JObj [(''symbol'', JStr ''AAPL'')], JObj [(''symbol'', JStr ''MSFT'')]]"
      and st' = "\<lparr>issued = [[reqObj ''ref-data/symbols'' (JStr ''pk'') (JStr []) (JStr ''symbol'')]]\<rparr>"]
  by (simp add: symbols_def getJson_def cannedCore_def dflt_def)

text \<open>
  Claim C5. When \<open>fxSymbols\<close> resolves to an object whose \<^verbatim>\<open>currencies\<close> and
  \<^verbatim>\<open>pairs\<close> are arrays of records, \<open>fxSymbolsList\<close> returns two arrays: the
  \<^verbatim>\<open>code\<close> of every currency in order, and
  \<^verbatim>\<open>fromCurrency + toCurrency\<close> of every pair in order, which for two strings is
  their concatenation. For \<^verbatim>\<open>{currencies:[{code:"USD"}],
  pairs:[{fromCurrency:"USD",toCurrency:"JPY"}]}\<close> the result is
  \<^verbatim>\<open>[["USD"], ["USDJPY"]]\<close>.
\<close>

theorem fxSymbolsList_partition:
  "(fxSymbols gj token version JUndefined st = (Inr fx, st') \<and>
      propOf fx ''currencies'' = JArr cs \<and> propOf fx ''pairs'' = JArr ps \<and>
      JUndefined \<notin> set cs \<and> JNull \<notin> set cs \<and> JUndefined \<notin> set ps \<and> JNull \<notin> set ps \<longrightarrow>
      fxSymbolsList gj token version st =
        (Inr (JArr [JArr (map (\<lambda>record. propOf record ''code'') cs),
                    JArr (map (\<lambda>record. jsAdd (propOf record ''fromCurrency'')
                                               (propOf record ''toCurrency'')) ps)]), st'))
   \<and> jsAdd (JStr a) (JStr b) = JStr (a @ b)
   \<and> (fxSymbols gj token version JUndefined st =
        (Inr (JObj [(''currencies'', JArr [JObj [(''code'', JStr ''USD'')]]),
                    (''pairs'', JArr [JObj [(''fromCurrency'', JStr ''USD''),
                                            (''toCurrency'', JStr ''JPY'')]])]), st') \<longrightarrow>
      fxSymbolsList gj token version st =
        (Inr (JArr [JArr [JStr ''USD''], JArr [JStr ''USDJPY'']]), st'))"
proof (intro conjI impI)
  assume "fxSymbols gj token version JUndefined st = (Inr fx, st') \<and>
      propOf fx ''currencies'' = JArr cs \<and> propOf fx ''pairs'' = JArr ps \<and>
      JUndefined \<notin> set cs \<and> JNull \<notin> set cs \<and> JUndefined \<notin> set ps \<and> JNull \<notin> set ps"
  then show "fxSymbolsList gj token version st =
        (Inr (JArr [JArr (map (\<lambda>record. propOf record ''code'') cs),
                    JArr (map (\<lambda>record. jsAdd (propOf record ''fromCurrency'')
                                               (propOf record ''toCurrency'')) ps)]), st')"
    by (elim conjE) (rule fxSymbolsList_resolved)
next
  show "jsAdd (JStr a) (JStr b) = JStr (a @ b)"
    by (rule jsAdd_strs)
next
  assume r: "fxSymbols gj token version JUndefined st =
        (Inr (JObj [(''currencies'', JArr [JObj [(''code'', JStr ''USD'')]]),
                    (''pairs'', JArr [JObj [(''fromCurrency'', JStr ''USD''),
                                            (''toCurrency'', JStr ''JPY'')]])]), st')"
  show "fxSymbolsList gj token version st =
        (Inr (JArr [JArr [JStr ''USD''], JArr [JStr ''USDJPY'']]), st')"
    using fxSymbolsList_resolved [OF r, of "[JObj [(''code'', JStr ''USD'')]]"
        "[JObj [(''fromCurrency'', JStr ''USD''), (''toCurrency'', JStr ''JPY'')]]"]
    by (simp add: jsAdd_strs)
qed

theorem fxSymbolsList_partition_witness:
  "fxSymbolsList
     (cannedCore (Inr (JObj [(''currencies'', JArr [JObj [(''code'', JStr ''USD'')]]),
                    (''pairs'', JArr [JObj [(''fromCurrency'', JStr ''USD''),
                                            (''toCurrency'', JStr ''JPY'')]])])))
     (JStr ''pk'') (JStr ''stable'') \<lparr>issued = []\<rparr> =
   (Inr (JArr [JArr [JStr ''USD''], JArr [JStr ''USDJPY'']]),
    \<lparr>issued = [[reqObj ''ref-data/fx/symbols'' (JStr ''pk'') (JStr ''stable'') (JStr [])]]\<rparr>)"
  using fxSymbolsList_partition [where gj = "cannedCore (Inr (JObj [(''currencies'', JArr [JObj [(''code'', JStr ''USD'')]]),
                    (''pairs'', JArr [JObj [(''fromCurrency'', JStr ''USD''),
                                            (''toCurrency'', JStr ''JPY'')]])]))"
      and token = "JStr ''pk''" and version = "JStr ''stable''" and st = "\<lparr>issued = []\<rparr>"
      and fx = "JObj [(''currencies'', JArr [JObj [(''code'', JStr ''USD'')]]),
                    (''pairs'', JArr [JObj [(''fromCurrency'', JStr ''USD''),
                                            (''toCurrency'', JStr ''JPY'')]])]"
      and cs = "[JObj [(''code'', JStr ''USD'')]]"
      and ps = "[JObj [(''fromCurrency'', JStr ''USD''), (''toCurrency'', JStr ''JPY'')]]"
      and st' = "\<lparr>issued = [[reqObj ''ref-data/fx/symbols'' (JStr ''pk'') (JStr ''stable'') (JStr [])]]\<rparr>"]
  by (simp add: fxSymbols_def getJson_def cannedCore_def dflt_def)

subsection \<open>International symbols\<close>

text \<open>
  Claim C9. \<open>internationalSymbols\<close> with the region \<^verbatim>\<open>us\<close> and
  \<open>internationalSymbols\<close> with neither region nor exchange issue the same request, whose
  URL is \<^verbatim>\<open>ref-data/region/us/symbols\<close>.
\<close>

theorem internationalSymbols_us_default:
  "internationalSymbols gj (JStr ''us'') exchange token version fltr st =
     internationalSymbols gj JUndefined JUndefined token version fltr st
   \<and> internationalSymbols gj JUndefined JUndefined token version fltr st =
     getJson gj [reqObj ''ref-data/region/us/symbols'' (dflt token (JStr []))
                   (dflt version (JStr [])) (dflt fltr (JStr []))] st"
  by (simp add: internationalSymbols_def)

text \<open>
  Claim C10. A non-empty region decides the request: the URL is
  \<^verbatim>\<open>ref-data/region/<region>/symbols\<close> whatever the exchange is. With an empty
  region and a non-empty exchange the URL is \<^verbatim>\<open>ref-data/exchange/<exchange>/symbols\<close>,
  and a request with a URL of that form is issued in no other case.
\<close>

theorem internationalSymbols_region_precedence:
  "(truthy region \<longrightarrow>
      internationalSymbols gj region exchange token version fltr st =
        getJson gj [reqObj (''ref-data/region/'' @ toStr region @ ''/symbols'')
                      (dflt token (JStr [])) (dflt version (JStr [])) (dflt fltr (JStr []))] st
      \<and> internationalSymbols gj region exchange token version fltr st =
        internationalSymbols gj region exchange' token version fltr st)
   \<and> (\<not> truthy region \<and> truthy exchange \<longrightarrow>
      internationalSymbols gj region exchange token version fltr st =
        getJson gj [reqObj (''ref-data/exchange/'' @ toStr exchange @ ''/symbols'')
                      (dflt token (JStr [])) (dflt version (JStr [])) (dflt fltr (JStr []))] st)
   \<and> (issued (snd (internationalSymbols gj region exchange token version fltr st)) =
        issued st @ [[reqObj (''ref-data/exchange/'' @ x @ ''/symbols'') tk vs fl]] \<longrightarrow>
      \<not> truthy region \<and> truthy exchange)"
  by (auto simp add: internationalSymbols_def getJson_def reqObj_def)

theorem internationalSymbols_region_precedence_witness:
  "truthy (JStr ''ca'') \<and> truthy (JStr ''LSE'')
   \<and> internationalSymbols (cannedCore (Inr JNull)) (JStr ''ca'') (JStr ''LSE'') (JStr ''pk'')
        (JStr ''stable'') JUndefined \<lparr>issued = []\<rparr> =
     (Inr JNull, \<lparr>issued = [[reqObj ''ref-data/region/ca/symbols'' (JStr ''pk'') (JStr ''stable'')
                               (JStr [])]]\<rparr>)
   \<and> internationalSymbols (cannedCore (Inr JNull)) JUndefined (JStr ''LSE'') (JStr ''pk'')
        (JStr ''stable'') JUndefined \<lparr>issued = []\<rparr> =
     (Inr JNull, \<lparr>issued = [[reqObj ''ref-data/exchange/LSE/symbols'' (JStr ''pk'')
                               (JStr ''stable'') (JStr [])]]\<rparr>)"
  using internationalSymbols_region_precedence [where region = "JStr ''ca''" and exchange = "JStr ''LSE''"
      and gj = "cannedCore (Inr JNull)" and token = "JStr ''pk''" and version = "JStr ''stable''"
      and fltr = JUndefined and st = "\<lparr>issued = []\<rparr>"]
    internationalSymbols_region_precedence [where region = JUndefined and exchange = "JStr ''LSE''"
      and gj = "cannedCore (Inr JNull)" and token = "JStr ''pk''" and version = "JStr ''stable''"
      and fltr = JUndefined and st = "\<lparr>issued = []\<rparr>"]
  by (simp add: getJson_def cannedCore_def dflt_def)

subsection \<open>Methods of the client\<close>

text \<open>
  Claim C2. Every method mounted on \<open>Client\<close> returns what the free function of the same
  name returns when it is given the remaining arguments together with the token and the
  version stored in the client; this holds for all arguments and for the fourteen market
  data endpoints, the eight symbol endpoints, the eight symbol lists and \<open>isinLookup\<close>.
\<close>

theorem client_methods_agree:
  "Client_tops gj c syms fltr st = tops gj syms (client_token c) (client_version c) fltr st
  \<and> Client_last gj c syms fltr st =
      last_endpoint gj syms (client_token c) (client_version c) fltr st
  \<and> Client_deep gj c symbol fltr st =
      deep gj symbol (client_token c) (client_version c) fltr st
  \<and> Client_auction gj c symbol fltr st =
      auction gj symbol (client_token c) (client_version c) fltr st
  \<and> Client_book gj c symbol fltr st =
      book gj symbol (client_token c) (client_version c) fltr st
  \<and> Client_opHaltStatus gj c symbol fltr st =
      opHaltStatus gj symbol (client_token c) (client_version c) fltr st
  \<and> Client_officialPrice gj c symbol fltr st =
      officialPrice gj symbol (client_token c) (client_version c) fltr st
  \<and> Client_securityEvent gj c symbol fltr st =
      securityEvent gj symbol (client_token c) (client_version c) fltr st
  \<and> Client_ssrStatus gj c symbol fltr st =
      ssrStatus gj symbol (client_token c) (client_version c) fltr st
  \<and> Client_systemEvent gj c symbol fltr st =
      systemEvent gj symbol (client_token c) (client_version c) fltr st
  \<and> Client_trades gj c symbol fltr st =
      trades gj symbol (client_token c) (client_version c) fltr st
  \<and> Client_tradeBreak gj c symbol fltr st =
      tradeBreak gj symbol (client_token c) (client_version c) fltr st
  \<and> Client_tradingStatus gj c symbol fltr st =
      tradingStatus gj symbol (client_token c) (client_version c) fltr st
  \<and> Client_hist strOrDate gj c date fltr st =
      hist strOrDate gj date (client_token c) (client_version c) fltr st
  \<and> Client_symbols gj c fltr st = symbols gj (client_token c) (client_version c) fltr st
  \<and> Client_iexSymbols gj c fltr st =
      iexSymbols gj (client_token c) (client_version c) fltr st
  \<and> Client_mutualFundSymbols gj c fltr st =
      mutualFundSymbols gj (client_token c) (client_version c) fltr st
  \<and> Client_otcSymbols gj c fltr st =
      otcSymbols gj (client_token c) (client_version c) fltr st
  \<and> Client_fxSymbols gj c fltr st =
      fxSymbols gj (client_token c) (client_version c) fltr st
  \<and> Client_optionsSymbols gj c fltr st =
      optionsSymbols gj (client_token c) (client_version c) fltr st
  \<and> Client_cryptoSymbols gj c fltr st =
      cryptoSymbols gj (client_token c) (client_version c) fltr st
  \<and> Client_internationalSymbols gj c region exchange fltr st =
      internationalSymbols gj region exchange (client_token c) (client_version c) fltr st
  \<and> Client_symbolsList gj c st = symbolsList gj (client_token c) (client_version c) st
  \<and> Client_iexSymbolsList gj c st =
      iexSymbolsList gj (client_token c) (client_version c) st
  \<and> Client_mutualFundSymbolsList gj c st =
      mutualFundSymbolsList gj (client_token c) (client_version c) st
  \<and> Client_otcSymbolsList gj c st =
      otcSymbolsList gj (client_token c) (client_version c) st
  \<and> Client_fxSymbolsList gj c st = fxSymbolsList gj (client_token c) (client_version c) st
  \<and> Client_optionsSymbolsList gj c st =
      optionsSymbolsList gj (client_token c) (client_version c) st
  \<and> Client_cryptoSymbolsList gj c st =
      cryptoSymbolsList gj (client_token c) (client_version c) st
  \<and> Client_internationalSymbolsList gj c region exchange st =
      internationalSymbolsList gj region exchange (client_token c) (client_version c) st
  \<and> Client_isinLookup gj c isin fltr st =
      isinLookup gj isin (client_token c) (client_version c) fltr st"
  by (simp add: client_method_defs)

end
